theory Spec2Isabelle
  imports Complex_Main
begin

section \<open>Error values\<close>

text \<open>
  Go errors are values. The constructors below are the error values the modelled code
  creates, compares against or passes through:
  \<^item> \<open>ErrNoRows\<close> is \<^verbatim>\<open>sql.ErrNoRows\<close>, \<open>DeadlineExceeded\<close> is
    \<^verbatim>\<open>context.DeadlineExceeded\<close>, \<open>Canceled\<close> is \<^verbatim>\<open>context.Canceled\<close>;
  \<^item> \<open>NotFoundError ds\<close> is \<^verbatim>\<open>&NotFoundError{DataSource: ds}\<close> of errors.go;
  \<^item> \<open>JSONError\<close> is an error of \<^verbatim>\<open>encoding/json\<close>, a \<^verbatim>\<open>*json.SyntaxError\<close> or a
    \<^verbatim>\<open>*json.UnmarshalTypeError\<close> (the model does not tell the two apart);
  \<^item> \<open>Errorf msg e\<close> is \<^verbatim>\<open>fmt.Errorf(msg + "%w", e)\<close>, an error wrapping \<open>e\<close>;
  \<^item> \<open>OtherError msg\<close> is any other error value (a driver error, a conversion error).
\<close>

datatype error =
    ErrNoRows
  | DeadlineExceeded
  | Canceled
  | NotFoundError string
  | JSONError
  | Errorf string error
  | OtherError string

text \<open>\<^verbatim>\<open>NotFoundError.Error()\<close> of errors.go.\<close>

definition NotFoundError_Error :: "string \<Rightarrow> string" where
  "NotFoundError_Error DataSource =
     (if DataSource \<noteq> '''' then ''no data found in '' @ DataSource else ''no data found'')"

section \<open>The generic nullable value (null.go)\<close>

text \<open>
  \<^verbatim>\<open>type Null[T Type] struct { Val T; Valid bool }\<close>. The type parameter \<open>T\<close> is the
  type variable \<open>'a\<close>; Go's \<^verbatim>\<open>==\<close> on \<open>T\<close> is HOL equality (which excludes the NaN of
  \<^verbatim>\<open>float64\<close>, the one value of the constraint \<open>Type\<close> that is not equal to itself).
\<close>

record 'a Null =
  Val :: 'a
  Valid :: bool

definition New :: "'a \<Rightarrow> bool \<Rightarrow> 'a Null" where
  "New val valid = \<lparr>Val = val, Valid = valid\<rparr>"

definition nullBytes :: string where
  "nullBytes = ''null''"

text \<open>
  \<^verbatim>\<open>func (n *Null[T]) Scan(value any) error\<close>. The method mutates \<open>*n\<close>: the model
  returns the updated receiver with the error (\<open>None\<close> is \<^verbatim>\<open>nil\<close>).

  The argument \<^verbatim>\<open>value any\<close> is \<open>None\<close> for the nil interface and \<open>Some x\<close> for a
  dynamic value \<open>x\<close> of the universe \<open>'v\<close>. What depends on \<open>T\<close> and on code outside
  null.go is passed in:
  \<^item> \<open>zero\<close>, the zero value of \<open>T\<close> (\<^verbatim>\<open>var zero T\<close>);
  \<^item> \<open>assertT\<close>, the type assertion \<^verbatim>\<open>value.(T)\<close> (\<open>None\<close> when it fails, in which case
    Go assigns the zero value to the left-hand side);
  \<^item> \<open>convertAssign\<close>, the conversion \<^verbatim>\<open>convertAssign(&n.Val, value)\<close>: from the current
    destination and the source value to the new destination and the error.
\<close>

definition Scan ::
  "'a \<Rightarrow> ('v \<Rightarrow> 'a option) \<Rightarrow> ('a \<Rightarrow> 'v \<Rightarrow> 'a \<times> error option) \<Rightarrow>
     'v option \<Rightarrow> 'a Null \<Rightarrow> 'a Null \<times> error option" where
  "Scan zero assertT convertAssign value n =
     (case value of
        None \<Rightarrow> (n\<lparr>Val := zero, Valid := False\<rparr>, None)
      | Some x \<Rightarrow>
          (case assertT x of
             Some y \<Rightarrow> (n\<lparr>Val := y, Valid := True\<rparr>, None)
           | None \<Rightarrow>
               (case convertAssign zero x of
                  (d, err) \<Rightarrow> (n\<lparr>Val := d, Valid := (err = None)\<rparr>, err))))"

text \<open>
  \<^verbatim>\<open>func (n Null[T]) Value() (driver.Value, error)\<close>: the pair of the driver value
  (\<open>None\<close> is \<^verbatim>\<open>nil\<close>) and the error.
\<close>

definition Value :: "'a Null \<Rightarrow> 'a option \<times> error option" where
  "Value n = (if \<not> Valid n then (None, None) else (Some (Val n), None))"

definition FromValue :: "'a \<Rightarrow> 'a Null" where
  "FromValue n = New n True"

text \<open>\<^verbatim>\<open>FromPtr\<close>: a pointer \<^verbatim>\<open>*T\<close> is \<open>None\<close> when nil, \<open>Some v\<close> when it points to \<open>v\<close>.\<close>

definition FromPtr :: "'a \<Rightarrow> 'a option \<Rightarrow> 'a Null" where
  "FromPtr zero n = (case n of None \<Rightarrow> New zero False | Some v \<Rightarrow> New v True)"

definition ValueOrZero :: "'a \<Rightarrow> 'a Null \<Rightarrow> 'a" where
  "ValueOrZero zero n = (if \<not> Valid n then zero else Val n)"

text \<open>
  \<^verbatim>\<open>func (n *Null[T]) UnmarshalJSON(data []byte) error\<close>. \<open>json_Unmarshal data v\<close> is
  \<^verbatim>\<open>json.Unmarshal(data, &n.Val)\<close> of the standard library for the type \<open>T\<close>: from the
  payload and the current content of the destination to the new content and the error.
  On an error the method returns at once: \<^verbatim>\<open>n.Valid\<close> is not assigned on that path.
\<close>

definition UnmarshalJSON ::
  "(string \<Rightarrow> 'a \<Rightarrow> 'a \<times> error option) \<Rightarrow> string \<Rightarrow> 'a Null \<Rightarrow> 'a Null \<times> error option" where
  "UnmarshalJSON json_Unmarshal data n =
     (if data = nullBytes then (n\<lparr>Valid := False\<rparr>, None)
      else
        (case json_Unmarshal data (Val n) of
           (v, Some err) \<Rightarrow> (n\<lparr>Val := v\<rparr>, Some (Errorf ''null: couldn't unmarshal JSON: '' err))
         | (v, None) \<Rightarrow> (n\<lparr>Val := v, Valid := True\<rparr>, None)))"


definition SetValid :: "'a \<Rightarrow> 'a Null \<Rightarrow> 'a Null" where
  "SetValid v n = n\<lparr>Val := v, Valid := True\<rparr>"

definition Ptr :: "'a Null \<Rightarrow> 'a option" where
  "Ptr n = (if \<not> Valid n then None else Some (Val n))"

definition IsZero :: "'a Null \<Rightarrow> bool" where
  "IsZero n = (\<not> Valid n)"

definition Equal :: "'a Null \<Rightarrow> 'a Null \<Rightarrow> bool" where
  "Equal n other = (Valid n = Valid other \<and> (\<not> Valid n \<or> Val n = Val other))"

section \<open>The standard library's JSON codec for integer kinds\<close>

text \<open>
  \<^verbatim>\<open>json.Unmarshal\<close>, \<^verbatim>\<open>json.Marshal\<close> and \<^verbatim>\<open>strconv\<close> belong to Go's standard
  library, not to the repository. What follows is their behaviour for a destination or a
  value of integer kind, the kinds that the constraint \<^verbatim>\<open>Number\<close> admits:
  \<^verbatim>\<open>byte\<close> (unsigned, 8 bits), \<^verbatim>\<open>int16\<close>, \<^verbatim>\<open>int32\<close>, \<^verbatim>\<open>int64\<close> and \<^verbatim>\<open>int\<close> (64 bits
  on the platforms the tests of the repository assume). A value of integer kind is an
  \<open>int\<close> within the range of its kind.
\<close>

datatype int_kind = KByte | KInt | KInt16 | KInt32 | KInt64

fun kind_min :: "int_kind \<Rightarrow> int" where
  "kind_min KByte = 0"
| "kind_min KInt = - 9223372036854775808"
| "kind_min KInt16 = - 32768"
| "kind_min KInt32 = - 2147483648"
| "kind_min KInt64 = - 9223372036854775808"

fun kind_max :: "int_kind \<Rightarrow> int" where
  "kind_max KByte = 255"
| "kind_max KInt = 9223372036854775807"
| "kind_max KInt16 = 32767"
| "kind_max KInt32 = 2147483647"
| "kind_max KInt64 = 9223372036854775807"

definition is_digit :: "char \<Rightarrow> bool" where
  "is_digit c = (48 \<le> (of_char c :: nat) \<and> (of_char c :: nat) \<le> 57)"

definition digit_val :: "char \<Rightarrow> nat" where
  "digit_val c = of_char c - 48"

definition digit_char :: "nat \<Rightarrow> char" where
  "digit_char d = ''0123456789'' ! d"

definition digits_val :: "string \<Rightarrow> nat" where
  "digits_val s = foldl (\<lambda>a c. 10 * a + digit_val c) 0 s"

text \<open>\<^verbatim>\<open>strconv.FormatUint(n, 10)\<close> and \<^verbatim>\<open>strconv.FormatInt(i, 10)\<close>.\<close>

fun FormatUint :: "nat \<Rightarrow> string" where
  "FormatUint n =
     (if n < 10 then [digit_char n] else FormatUint (n div 10) @ [digit_char (n mod 10)])"

declare FormatUint.simps [simp del]

definition FormatInt :: "int \<Rightarrow> string" where
  "FormatInt i = (if i < 0 then CHR ''-'' # FormatUint (nat (- i)) else FormatUint (nat i))"

text \<open>
  \<^verbatim>\<open>strconv.ParseUint(s, 10, 64)\<close>: decimal digits only, no sign, and a value below
  \<open>2^64\<close>; \<open>None\<close> is a syntax or range error.
\<close>

definition ParseUint :: "string \<Rightarrow> nat option" where
  "ParseUint s =
     (if s = [] then None
      else if \<not> list_all is_digit s then None
      else if digits_val s \<ge> 18446744073709551616 then None
      else Some (digits_val s))"

text \<open>
  \<^verbatim>\<open>strconv.ParseInt(s, 10, 64)\<close>: an optional sign, then \<^verbatim>\<open>ParseUint\<close>, then the
  range check against \<open>2^63\<close>.
\<close>

definition ParseInt :: "string \<Rightarrow> int option" where
  "ParseInt s0 =
     (if s0 = [] then None
      else
        (let neg = (hd s0 = CHR ''-'');
             s = (if hd s0 = CHR ''+'' \<or> hd s0 = CHR ''-'' then tl s0 else s0)
         in case ParseUint s of
              None \<Rightarrow> None
            | Some un \<Rightarrow>
                if \<not> neg \<and> un \<ge> 9223372036854775808 then None
                else if neg \<and> un > 9223372036854775808 then None
                else Some (if neg then - int un else int un)))"

text \<open>The white space of JSON: space, tab, carriage return, line feed.\<close>

definition is_space :: "char \<Rightarrow> bool" where
  "is_space c = (c = CHR '' '' \<or> c = CHR 0x09 \<or> c = CHR 0x0D \<or> c = CHR 0x0A)"

definition trim_space :: "string \<Rightarrow> string" where
  "trim_space s = rev (dropWhile is_space (rev (dropWhile is_space s)))"

text \<open>
  A JSON number literal: an optional minus, an integer part without leading zeros, an
  optional fraction (a dot and digits), an optional exponent (\<open>e\<close> or \<open>E\<close>, an optional
  sign, digits). \<open>scan_number\<close> accepts exactly these and returns the parts.
\<close>

record json_number =
  num_neg :: bool
  num_int :: string
  num_frac :: "string option"
  num_exp :: "(bool \<times> string) option"

definition scan_frac :: "string \<Rightarrow> (string option \<times> string) option" where
  "scan_frac s =
     (case s of
        [] \<Rightarrow> Some (None, [])
      | c # r \<Rightarrow>
          if c = CHR ''.'' then
            (if takeWhile is_digit r = [] then None
             else Some (Some (takeWhile is_digit r), dropWhile is_digit r))
          else Some (None, s))"

definition scan_exp :: "string \<Rightarrow> ((bool \<times> string) option \<times> string) option" where
  "scan_exp s =
     (case s of
        [] \<Rightarrow> Some (None, [])
      | c # r \<Rightarrow>
          if c = CHR ''e'' \<or> c = CHR ''E'' then
            (let eneg = (r \<noteq> [] \<and> hd r = CHR ''-'');
                 r1 = (if r \<noteq> [] \<and> (hd r = CHR ''+'' \<or> hd r = CHR ''-'') then tl r else r)
             in if takeWhile is_digit r1 = [] then None
                else Some (Some (eneg, takeWhile is_digit r1), dropWhile is_digit r1))
          else Some (None, s))"

definition scan_number :: "string \<Rightarrow> json_number option" where
  "scan_number s =
     (let neg = (s \<noteq> [] \<and> hd s = CHR ''-'');
          s1 = (if neg then tl s else s);
          ip = takeWhile is_digit s1;
          s2 = dropWhile is_digit s1
      in if ip = [] \<or> (hd ip = CHR ''0'' \<and> length ip > 1) then None
         else
           (case scan_frac s2 of
              None \<Rightarrow> None
            | Some (fr, s3) \<Rightarrow>
                (case scan_exp s3 of
                   None \<Rightarrow> None
                 | Some (ex, s4) \<Rightarrow>
                     if s4 = [] then
                       Some \<lparr>num_neg = neg, num_int = ip, num_frac = fr, num_exp = ex\<rparr>
                     else None)))"

text \<open>The rational number that a JSON number literal denotes.\<close>

definition number_value :: "json_number \<Rightarrow> rat" where
  "number_value p =
     (if num_neg p then - 1 else 1)
     * (of_nat (digits_val (num_int p))
        + (case num_frac p of None \<Rightarrow> 0
           | Some f \<Rightarrow> of_nat (digits_val f) / 10 ^ length f))
     * (case num_exp p of None \<Rightarrow> 1
        | Some (eneg, d) \<Rightarrow> if eneg then 1 / 10 ^ digits_val d else 10 ^ digits_val d)"

text \<open>
  \<^verbatim>\<open>json.Unmarshal(data, &v)\<close> for \<open>v\<close> of the integer kind \<open>k\<close>, from the payload and
  the current content of \<open>v\<close> to its new content and the error. The payload is one JSON
  value between optional white space. The literal \<^verbatim>\<open>null\<close> leaves \<open>v\<close> as it is, without
  error. A number literal is handed to \<^verbatim>\<open>strconv.ParseUint\<close> (for \<^verbatim>\<open>byte\<close>) or
  \<^verbatim>\<open>strconv.ParseInt\<close> (otherwise) and then checked against the range of the kind; a
  failure of either is an error and leaves \<open>v\<close> as it is. Any other payload is an error:
  it is a JSON value of another sort (a boolean, a string, an array, an object) or it is
  not JSON.
\<close>

definition json_Unmarshal_int :: "int_kind \<Rightarrow> string \<Rightarrow> int \<Rightarrow> int \<times> error option" where
  "json_Unmarshal_int k data v =
     (let item = trim_space data
      in if item = ''null'' then (v, None)
         else if scan_number item = None then (v, Some JSONError)
         else
           (case (if k = KByte then map_option int (ParseUint item) else ParseInt item) of
              None \<Rightarrow> (v, Some JSONError)
            | Some n \<Rightarrow>
                if n < kind_min k \<or> kind_max k < n then (v, Some JSONError)
                else (n, None)))"


section \<open>The standard library's JSON codec for strings\<close>




















section \<open>The standard library's JSON codec for booleans\<close>



section \<open>How a call ends\<close>

text \<open>
  A Go call either returns its results or panics; \<open>Panicked r\<close> is a panic with value
  \<open>r\<close> that leaves the call.
\<close>

datatype 'r outcome = Returned 'r | Panicked string

section \<open>Transactions (tx.go)\<close>

text \<open>
  \<^verbatim>\<open>errors.Is(err, target)\<close>: \<open>err\<close> or an error it wraps is \<open>target\<close>; a nil
  \<open>err\<close> is no error.
\<close>

fun unwraps_to :: "error \<Rightarrow> error \<Rightarrow> bool" where
  "unwraps_to (Errorf msg e) target = (Errorf msg e = target \<or> unwraps_to e target)"
| "unwraps_to e target = (e = target)"

definition errors_Is :: "error option \<Rightarrow> error \<Rightarrow> bool" where
  "errors_Is err target = (case err of None \<Rightarrow> False | Some e \<Rightarrow> unwraps_to e target)"

record TxOptions =
  Isolation :: nat
  ReadOnly :: bool

text \<open>\<^verbatim>\<open>sql.LevelDefault\<close> is the isolation level 0.\<close>

definition DefaultTxOpts :: TxOptions where
  "DefaultTxOpts = \<lparr>Isolation = 0, ReadOnly = False\<rparr>"

text \<open>
  The collaborators of \<^verbatim>\<open>TxProvider\<close>, as what their calls answer:
  \<^verbatim>\<open>conn.BeginTx(ctx, opts)\<close> (its error), \<^verbatim>\<open>tx.Commit()\<close>,
  \<^verbatim>\<open>tx.Rollback()\<close> and \<^verbatim>\<open>ctx.Err()\<close>.
\<close>

record world =
  BeginTx :: "TxOptions \<Rightarrow> error option"
  tx_Commit :: "error option"
  tx_Rollback :: "error option"
  ctx_Err :: "error option"

text \<open>What the code does to its collaborators, in order.\<close>

datatype event =
    Begin TxOptions
  | Invoke
  | Commit
  | Rollback
  | LogPanic string
  | LogTimeout

text \<open>
  The unit of work \<^verbatim>\<open>fn func(TxContext) error\<close> is applied once; its call returns an
  error value (\<open>Return None\<close> is \<^verbatim>\<open>return nil\<close>) or panics. The \<^verbatim>\<open>TxContext\<close> it
  receives offers Prepare, Exec, Query and QueryRow, neither Commit nor Rollback.
\<close>

datatype fn_result = Return "error option" | Panic string

text \<open>\<^verbatim>\<open>AcquireWithOpts\<close>: the error of \<^verbatim>\<open>BeginTx\<close>, nil with an open transaction.\<close>

definition AcquireWithOpts :: "world \<Rightarrow> TxOptions \<Rightarrow> error option" where
  "AcquireWithOpts w opts = BeginTx w opts"

text \<open>
  The function deferred by \<^verbatim>\<open>TxWithOpts\<close>. \<open>r\<close> is what \<^verbatim>\<open>recover()\<close> returns:
  \<open>Some p\<close> while the goroutine panics with \<open>p\<close>, \<open>None\<close> otherwise. \<open>err\<close> is the
  variable \<^verbatim>\<open>err\<close> of the enclosing function at that moment, \<open>tr\<close> the events so far;
  the result is the new content of \<^verbatim>\<open>err\<close> and the events.
\<close>

definition deferred ::
  "world \<Rightarrow> string option \<Rightarrow> error option \<Rightarrow> event list \<Rightarrow> error option \<times> event list" where
  "deferred w r err tr =
     (let tr1 = (case r of Some p \<Rightarrow> tr @ [LogPanic p] | None \<Rightarrow> tr);
          (err2, tr2) = (if err = None then (tx_Commit w, tr1 @ [Commit])
                         else (tx_Rollback w, tr1 @ [Rollback]));
          tr3 = (if ctx_Err w \<noteq> None \<and> errors_Is err2 DeadlineExceeded
                 then tr2 @ [LogTimeout] else tr2)
      in (err2, tr3))"

text \<open>
  \<^verbatim>\<open>func (t *TxProvider) TxWithOpts(ctx, fn, opts) error\<close>. The result of the function
  is not named, and \<^verbatim>\<open>err\<close> is a local variable declared by \<^verbatim>\<open>tx, err := ...\<close>.
  By the Go specification, \<^verbatim>\<open>return err\<close> stores the value of \<^verbatim>\<open>err\<close> as the result
  before the deferred function runs, so what the deferred function assigns to the variable
  afterwards does not reach the caller. When \<^verbatim>\<open>fn\<close> panics, the assignment
  \<^verbatim>\<open>err = fn(tx)\<close> does not happen and \<^verbatim>\<open>err\<close> still holds the nil that
  \<^verbatim>\<open>AcquireWithOpts\<close> returned; the deferred function recovers the panic, and the
  function returns the zero value of its result, nil.

  The model returns how the call ends, with the events in order.
\<close>

definition TxWithOpts :: "world \<Rightarrow> fn_result \<Rightarrow> TxOptions \<Rightarrow> error option outcome \<times> event list" where
  "TxWithOpts w fn opts =
     (case AcquireWithOpts w opts of
        Some e \<Rightarrow> (Returned (Some e), [Begin opts])
      | None \<Rightarrow>
          (case fn of
             Return e \<Rightarrow>
               (let err = e;
                    result = err;
                    (err', tr) = deferred w None err [Begin opts, Invoke]
                in (Returned result, tr))
           | Panic p \<Rightarrow>
               (let err = None;
                    (err', tr) = deferred w (Some p) err [Begin opts, Invoke]
                in (Returned None, tr))))"

text \<open>\<^verbatim>\<open>func (t *TxProvider) Tx(ctx, fn) error\<close>.\<close>

definition TxProvider_Tx :: "world \<Rightarrow> fn_result \<Rightarrow> error option outcome \<times> event list" where
  "TxProvider_Tx w fn = TxWithOpts w fn DefaultTxOpts"

section \<open>The single-row helper\<close>

text \<open>
  \<^verbatim>\<open>ctx.QueryRow(query, args...)\<close> gives a \<^verbatim>\<open>*sql.Row\<close>: the error of the query, if
  any, and the rows of its result, each row given by what scanning it into a destination
  does. \<^verbatim>\<open>Row.Scan\<close> of \<^verbatim>\<open>database/sql\<close> returns the error of the query when there is
  one, \<^verbatim>\<open>sql.ErrNoRows\<close> when the result has no row, and scans the first row otherwise.
\<close>

record 'a sql_Row =
  row_err :: "error option"
  row_rows :: "('a \<Rightarrow> 'a \<times> error option) list"

definition Row_Scan :: "'a sql_Row \<Rightarrow> 'a \<Rightarrow> 'a \<times> error option" where
  "Row_Scan r dest =
     (case row_err r of
        Some e \<Rightarrow> (dest, Some e)
      | None \<Rightarrow> (case row_rows r of [] \<Rightarrow> (dest, Some ErrNoRows) | row # _ \<Rightarrow> row dest))"

text \<open>
  \<^verbatim>\<open>ctx.Value(CtxDataSourceKey{})\<close> is an \<^verbatim>\<open>any\<close>: \<open>None\<close> when the context has no
  value under the key, otherwise the value, a string or something else.
\<close>

datatype ctx_value = StringValue string | OtherValue

text \<open>
  \<^verbatim>\<open>func QueryRow[T any](ctx TxContext, query string, binder func(*T) []any, args ...any) (T, error)\<close>.
  \<open>zero\<close> is \<^verbatim>\<open>var result T\<close>, \<open>ds\<close> is \<^verbatim>\<open>ctx.Value(CtxDataSourceKey{})\<close> and \<open>r\<close> is
  the row that \<^verbatim>\<open>ctx.QueryRow(query, args...)\<close> returns. The comparison with
  \<^verbatim>\<open>sql.ErrNoRows\<close> is \<^verbatim>\<open>==\<close>; the type assertion \<^verbatim>\<open>.(string)\<close> has no second
  result, so it panics when the value is not a string. The source does not call
  \<^verbatim>\<open>binder\<close>: it scans into \<^verbatim>\<open>&result\<close>.
\<close>

definition QueryRow :: "'a \<Rightarrow> ctx_value option \<Rightarrow> 'a sql_Row \<Rightarrow> ('a \<times> error option) outcome" where
  "QueryRow zero ds r =
     (case Row_Scan r zero of
        (result, Some err) \<Rightarrow>
          (if err = ErrNoRows then
             (case ds of
                Some (StringValue s) \<Rightarrow> Returned (result, Some (NotFoundError s))
              | Some OtherValue \<Rightarrow> Panicked ''interface conversion: interface {} is not string''
              | None \<Rightarrow> Panicked ''interface conversion: interface {} is nil, not string'')
           else Returned (result, Some err))
      | (result, None) \<Rightarrow> Returned (result, None))"

section \<open>Properties of the nullable value\<close>

text \<open>
  C9. For every pair of nullable values \<open>a\<close> and \<open>b\<close>, \<open>Equal a b\<close> is true if and only
  if both are invalid, or both are valid and their \<open>Val\<close> fields are equal; in particular
  two invalid instances are equal whatever their stored \<open>Val\<close> fields are.
\<close>

theorem Equal_iff:
  "(Equal a b \<longleftrightarrow> (\<not> Valid a \<and> \<not> Valid b) \<or> (Valid a \<and> Valid b \<and> Val a = Val b))
   \<and> Equal (a\<lparr>Valid := False\<rparr>) (b\<lparr>Valid := False\<rparr>)"
  by (auto simp: Equal_def)

theorem Equal_iff_witness:
  "Equal (New (10::int) False) (New 20 False)
   \<and> Equal (New (10::int) True) (New 10 True)
   \<and> \<not> Equal (New (10::int) True) (New 20 True)
   \<and> \<not> Equal (New (10::int) True) (New 10 False)"
  using Equal_iff [of "New (10::int) False" "New 20 False"]
        Equal_iff [of "New (10::int) True" "New 10 True"]
        Equal_iff [of "New (10::int) True" "New 20 True"]
        Equal_iff [of "New (10::int) True" "New 10 False"]
  by (simp add: New_def)

text \<open>
  C7. For every invalid nullable value, \<open>Value\<close> returns the native null sentinel (nil)
  with no error; and for every nullable value, \<open>Scan\<close> of nil succeeds and leaves it
  invalid with \<open>Val\<close> equal to the zero value of \<open>T\<close>.
\<close>

theorem Value_invalid_Scan_nil:
  "Value (n\<lparr>Valid := False\<rparr>) = (None, None)
   \<and> snd (Scan zero assertT convertAssign None m) = None
   \<and> Valid (fst (Scan zero assertT convertAssign None m)) = False
   \<and> Val (fst (Scan zero assertT convertAssign None m)) = zero"
  by (simp add: Value_def Scan_def)

theorem Value_invalid_Scan_nil_witness:
  "Value (New (12345::int) False) = (None, None)
   \<and> Scan (0::int) (\<lambda>x::int. Some x) (\<lambda>d x. (x, None)) None (New 12345 True)
       = (\<lparr>Val = 0, Valid = False\<rparr>, None)"
  using Value_invalid_Scan_nil [of "New (12345::int) False" "0::int" "\<lambda>x::int. Some x"
          "\<lambda>d x. (x, None)" "New 12345 True"]
  by (simp add: New_def Value_def Scan_def)

text \<open>
  C10. The two null-decode paths differ in what they leave in \<open>Val\<close>: for every nullable
  value, \<open>Scan\<close> of nil sets \<open>Valid\<close> to false and resets \<open>Val\<close> to the zero value of \<open>T\<close>,
  whereas \<open>UnmarshalJSON\<close> applied to the null literal sets \<open>Valid\<close> to false but leaves the
  previously stored \<open>Val\<close> unchanged.
\<close>

theorem null_decode_paths:
  "Scan zero assertT convertAssign None n = (\<lparr>Val = zero, Valid = False\<rparr>, None)
   \<and> UnmarshalJSON json_Unmarshal ''null'' n = (\<lparr>Val = Val n, Valid = False\<rparr>, None)"
  by (simp add: Scan_def UnmarshalJSON_def nullBytes_def)

theorem null_decode_paths_witness:
  "Scan (0::int) (\<lambda>x::int. Some x) (\<lambda>d x. (x, None)) None (New 7 True)
     = (\<lparr>Val = 0, Valid = False\<rparr>, None)
   \<and> UnmarshalJSON (\<lambda>s d. (d, Some JSONError)) ''null'' (New (7::int) True)
     = (\<lparr>Val = 7, Valid = False\<rparr>, None)"
  using null_decode_paths [of "0::int" "\<lambda>x::int. Some x" "\<lambda>d x. (x, None)" "New 7 True"
          "\<lambda>s d. (d, Some JSONError)"]
  by (simp add: New_def)


section \<open>Properties of the transaction wrapper\<close>

text \<open>
  C3. For every unit of work that returns normally after a successful acquire, the
  transaction is finalized exactly once: it is committed exactly once and never rolled back
  when the unit of work returned no error, and rolled back exactly once and never
  committed when the unit of work returned an error.
\<close>

theorem TxWithOpts_finalizes_once:
  assumes "AcquireWithOpts w opts = None"
  shows "count_list (snd (TxWithOpts w (Return None) opts)) Commit = 1
         \<and> count_list (snd (TxWithOpts w (Return None) opts)) Rollback = 0
         \<and> count_list (snd (TxWithOpts w (Return (Some e)) opts)) Rollback = 1
         \<and> count_list (snd (TxWithOpts w (Return (Some e)) opts)) Commit = 0"
  using assms by (simp add: TxWithOpts_def deferred_def Let_def)

theorem TxWithOpts_finalizes_once_witness:
  "snd (TxWithOpts \<lparr>BeginTx = \<lambda>_. None, tx_Commit = None, tx_Rollback = None, ctx_Err = None\<rparr>
          (Return None) DefaultTxOpts) = [Begin DefaultTxOpts, Invoke, Commit]
   \<and> count_list (snd (TxWithOpts \<lparr>BeginTx = \<lambda>_. None, tx_Commit = None, tx_Rollback = None,
          ctx_Err = None\<rparr> (Return (Some (OtherError ''failed''))) DefaultTxOpts)) Rollback = 1"
  using TxWithOpts_finalizes_once [of "\<lparr>BeginTx = \<lambda>_. None, tx_Commit = None,
          tx_Rollback = None, ctx_Err = None\<rparr>" DefaultTxOpts "OtherError ''failed''"]
  by (simp add: TxWithOpts_def AcquireWithOpts_def deferred_def Let_def)


text \<open>
  C1. The claim: a unit of work that ends by an unrecovered panic has its panic caught at
  the boundary and its transaction finalized by a rollback, never by a commit. What the
  code does: the panic is caught and logged, the variable \<^verbatim>\<open>err\<close> was never assigned by
  the unit of work and is nil, and the transaction is committed, never rolled back; the
  caller receives nil.
\<close>

theorem TxWithOpts_panic_commits:
  assumes "AcquireWithOpts w opts = None"
  shows "fst (TxWithOpts w (Panic p) opts) = Returned None
         \<and> LogPanic p \<in> set (snd (TxWithOpts w (Panic p) opts))
         \<and> count_list (snd (TxWithOpts w (Panic p) opts)) Commit = 1
         \<and> count_list (snd (TxWithOpts w (Panic p) opts)) Rollback = 0"
  using assms by (simp add: TxWithOpts_def deferred_def Let_def)

theorem TxWithOpts_panic_commits_witness:
  "TxProvider_Tx \<lparr>BeginTx = \<lambda>_. None, tx_Commit = None, tx_Rollback = None, ctx_Err = None\<rparr>
     (Panic ''boom'')
   = (Returned None, [Begin DefaultTxOpts, Invoke, LogPanic ''boom'', Commit])"
  using TxWithOpts_panic_commits [of "\<lparr>BeginTx = \<lambda>_. None, tx_Commit = None,
          tx_Rollback = None, ctx_Err = None\<rparr>" DefaultTxOpts "''boom''"]
  by (simp add: TxProvider_Tx_def TxWithOpts_def AcquireWithOpts_def deferred_def Let_def
        errors_Is_def)

text \<open>
  C2. The claim: when the finalization (commit or rollback) fails, the finalization error
  is returned to the caller in place of the error of the unit of work. What the code does:
  the result is fixed by \<^verbatim>\<open>return err\<close> before the deferred function finalizes, so the
  caller receives what the unit of work returned, whatever commit and rollback answer; a
  failed commit after a successful unit of work is reported as success.
\<close>

theorem TxWithOpts_drops_finalize_error:
  assumes "AcquireWithOpts w opts = None"
  shows "fst (TxWithOpts (w\<lparr>tx_Commit := c, tx_Rollback := r\<rparr>) (Return e) opts) = Returned e"
  using assms by (simp add: TxWithOpts_def AcquireWithOpts_def deferred_def Let_def split: prod.splits)

theorem TxWithOpts_drops_finalize_error_witness:
  "TxWithOpts \<lparr>BeginTx = \<lambda>_. None, tx_Commit = Some (OtherError ''commit failed''),
               tx_Rollback = None, ctx_Err = None\<rparr> (Return None) DefaultTxOpts
   = (Returned None, [Begin DefaultTxOpts, Invoke, Commit])"
  using TxWithOpts_drops_finalize_error [of "\<lparr>BeginTx = \<lambda>_. None, tx_Commit = None,
          tx_Rollback = None, ctx_Err = None\<rparr>" DefaultTxOpts "Some (OtherError ''commit failed'')"
          None None]
  by (simp add: TxWithOpts_def AcquireWithOpts_def deferred_def Let_def errors_Is_def)

section \<open>Properties of the single-row helper\<close>

text \<open>
  C8. For every single-row query whose execution yields zero rows, the returned error is a
  \<open>NotFoundError\<close> carrying as \<open>DataSource\<close> the data-source identifier found in the
  context; the identifier must be present in the context (its absence, or a value that is
  not a string, is a fault: the call panics); and every other scan error is returned
  unchanged.
\<close>

theorem QueryRow_not_found:
  "(row_err r = None \<and> row_rows r = [] \<longrightarrow>
      QueryRow zero (Some (StringValue s)) r = Returned (zero, Some (NotFoundError s))
      \<and> (\<exists>msg. QueryRow zero None r = Panicked msg)
      \<and> (\<exists>msg. QueryRow zero (Some OtherValue) r = Panicked msg))
   \<and> (Row_Scan r zero = (x, Some e) \<and> e \<noteq> ErrNoRows \<longrightarrow>
      QueryRow zero ds r = Returned (x, Some e))"
  by (simp add: QueryRow_def Row_Scan_def)

theorem QueryRow_not_found_witness:
  "QueryRow (0::int) (Some (StringValue ''users'')) \<lparr>row_err = None, row_rows = []\<rparr>
     = Returned (0, Some (NotFoundError ''users''))
   \<and> QueryRow (0::int) (Some (StringValue ''users''))
        \<lparr>row_err = Some Canceled, row_rows = []\<rparr> = Returned (0, Some Canceled)"
  using QueryRow_not_found [of "\<lparr>row_err = None, row_rows = []\<rparr>" "0::int" "''users''"]
        QueryRow_not_found [of "\<lparr>row_err = Some Canceled, row_rows = []\<rparr>" "0::int" _ 0
          Canceled "Some (StringValue ''users'')"]
  by (simp add: Row_Scan_def)


section \<open>Properties of the JSON decoding of a nullable value\<close>

lemma not_all_digits:
  assumes "dropWhile is_digit s1 = c # r"
  shows "\<not> list_all is_digit s1"
proof
  assume "list_all is_digit s1"
  then have "dropWhile is_digit s1 = []" by (simp add: list_all_iff)
  with assms show False by simp
qed

lemma scan_frac_exp_rest:
  assumes "scan_frac s2 = Some (fr, s3)" "scan_exp s3 = Some (ex, s4)" "fr \<noteq> None \<or> ex \<noteq> None"
  shows "s2 \<noteq> []"
  using assms by (auto simp: scan_frac_def scan_exp_def split: list.splits if_splits)

lemma scan_number_frac_exp:
  assumes "scan_number s = Some p" "num_frac p \<noteq> None \<or> num_exp p \<noteq> None"
  shows "ParseInt s = None \<and> ParseUint s = None"
proof -
  define neg where "neg = (s \<noteq> [] \<and> hd s = CHR ''-'')"
  define s1 where "s1 = (if neg then tl s else s)"
  define s2 where "s2 = dropWhile is_digit s1"
  from assms(1) have ip: "takeWhile is_digit s1 \<noteq> []"
    unfolding scan_number_def neg_def s1_def Let_def by (auto split: if_splits)
  from assms(1) obtain fr s3 ex s4 where
    sc: "scan_frac s2 = Some (fr, s3)" "scan_exp s3 = Some (ex, s4)"
    and pp: "num_frac p = fr" "num_exp p = ex"
    unfolding scan_number_def neg_def s1_def s2_def Let_def
    by (auto split: if_splits option.splits prod.splits)
  from sc pp assms(2) have "s2 \<noteq> []" by (auto dest: scan_frac_exp_rest)
  then obtain c r where "dropWhile is_digit s1 = c # r"
    unfolding s2_def by (cases "dropWhile is_digit s1") auto
  then have nd: "\<not> list_all is_digit s1" by (rule not_all_digits)
  from ip have s1ne: "s1 \<noteq> []" by auto
  from ip have d1: "is_digit (hd s1)" by (cases s1) (auto split: if_splits)
  have pu1: "ParseUint s1 = None" using nd by (simp add: ParseUint_def)
  have sne: "s \<noteq> []" using s1ne unfolding s1_def by (auto split: if_splits)
  have plus: "hd s \<noteq> CHR ''+''"
  proof
    assume h: "hd s = CHR ''+''"
    then have "\<not> neg" by (simp add: neg_def)
    then have "s1 = s" by (simp add: s1_def)
    with d1 h show False by (simp add: is_digit_def)
  qed
  have strip: "(if hd s = CHR ''+'' \<or> hd s = CHR ''-'' then tl s else s) = s1"
    using plus sne by (simp add: s1_def neg_def)
  have "ParseInt s = None"
    using sne pu1 unfolding ParseInt_def Let_def strip by simp
  moreover have "ParseUint s = None"
  proof (cases neg)
    case True
    then have "s = CHR ''-'' # s1" using sne by (cases s) (auto simp: neg_def s1_def)
    then show ?thesis by (simp add: ParseUint_def is_digit_def)
  next
    case False
    then have "s = s1" by (simp add: s1_def)
    then show ?thesis using pu1 by simp
  qed
  ultimately show ?thesis by simp
qed

lemma number_value_integral:
  assumes "num_frac p = None" "num_exp p = None"
  shows "number_value p \<in> \<int>"
  using assms by (simp add: number_value_def)

lemma json_Unmarshal_int_fraction:
  assumes "scan_number (trim_space data) = Some p" "number_value p \<notin> \<int>"
  shows "snd (json_Unmarshal_int k data v) = Some JSONError"
proof -
  from assms(2) have "num_frac p \<noteq> None \<or> num_exp p \<noteq> None"
    using number_value_integral by blast
  with assms(1) have "ParseInt (trim_space data) = None \<and> ParseUint (trim_space data) = None"
    by (rule scan_number_frac_exp)
  moreover have "trim_space data \<noteq> ''null''"
  proof
    assume "trim_space data = ''null''"
    with assms(1) show False by (simp add: scan_number_def is_digit_def)
  qed
  ultimately show ?thesis using assms(1) by (simp add: json_Unmarshal_int_def Let_def)
qed

lemma trim_number_not_null:
  assumes "scan_number (trim_space data) = Some p"
  shows "data \<noteq> ''null''"
proof
  assume "data = ''null''"
  with assms show False by (simp add: trim_space_def is_space_def scan_number_def is_digit_def)
qed


lemma max_decodes:
  "json_Unmarshal_int k (FormatInt (kind_max k)) v = (kind_max k, None)"
  by (cases k)
     (simp_all add: FormatInt_def FormatUint.simps digit_char_def json_Unmarshal_int_def
        trim_space_def is_space_def scan_number_def scan_frac_def scan_exp_def ParseInt_def
        ParseUint_def digits_val_def digit_val_def is_digit_def Let_def)

lemma max_succ_fails:
  "json_Unmarshal_int k (FormatInt (kind_max k + 1)) v = (v, Some JSONError)"
  by (cases k)
     (simp_all add: FormatInt_def FormatUint.simps digit_char_def json_Unmarshal_int_def
        trim_space_def is_space_def scan_number_def scan_frac_def scan_exp_def ParseInt_def
        ParseUint_def digits_val_def digit_val_def is_digit_def Let_def)

lemma max_text_not_null:
  "FormatInt (kind_max k) \<noteq> ''null'' \<and> FormatInt (kind_max k + 1) \<noteq> ''null''"
  by (cases k) (simp_all add: FormatInt_def FormatUint.simps digit_char_def)

text \<open>
  C6. For every integer kind, \<open>UnmarshalJSON\<close> on the decimal text of the maximum of the
  kind succeeds, yielding that value, valid; on the text of the maximum plus one it fails
  with a decode error; and on any JSON number whose value is not an integer it fails with
  a decode error.
\<close>

theorem UnmarshalJSON_int_boundary:
  "UnmarshalJSON (json_Unmarshal_int k) (FormatInt (kind_max k)) n
     = (n\<lparr>Val := kind_max k, Valid := True\<rparr>, None)
   \<and> snd (UnmarshalJSON (json_Unmarshal_int k) (FormatInt (kind_max k + 1)) n)
     = Some (Errorf ''null: couldn't unmarshal JSON: '' JSONError)
   \<and> (scan_number (trim_space data) = Some p \<and> number_value p \<notin> \<int> \<longrightarrow>
        snd (UnmarshalJSON (json_Unmarshal_int k) data n)
          = Some (Errorf ''null: couldn't unmarshal JSON: '' JSONError))"
proof (intro conjI impI)
  show "UnmarshalJSON (json_Unmarshal_int k) (FormatInt (kind_max k)) n
          = (n\<lparr>Val := kind_max k, Valid := True\<rparr>, None)"
    using max_text_not_null [of k]
    by (simp add: UnmarshalJSON_def nullBytes_def max_decodes)
  show "snd (UnmarshalJSON (json_Unmarshal_int k) (FormatInt (kind_max k + 1)) n)
          = Some (Errorf ''null: couldn't unmarshal JSON: '' JSONError)"
    using max_text_not_null [of k]
    by (simp add: UnmarshalJSON_def nullBytes_def max_succ_fails)
next
  assume h: "scan_number (trim_space data) = Some p \<and> number_value p \<notin> \<int>"
  then have ne: "data \<noteq> ''null''" by (auto dest: trim_number_not_null)
  from h have "snd (json_Unmarshal_int k data (Val n)) = Some JSONError"
    by (auto intro: json_Unmarshal_int_fraction)
  then show "snd (UnmarshalJSON (json_Unmarshal_int k) data n)
          = Some (Errorf ''null: couldn't unmarshal JSON: '' JSONError)"
    using ne by (cases "json_Unmarshal_int k data (Val n)") (simp add: UnmarshalJSON_def nullBytes_def)
qed

theorem UnmarshalJSON_int_boundary_witness:
  "UnmarshalJSON (json_Unmarshal_int KInt) ''9223372036854775807'' (New 0 False)
     = (\<lparr>Val = 9223372036854775807, Valid = True\<rparr>, None)
   \<and> snd (UnmarshalJSON (json_Unmarshal_int KInt) ''9223372036854775808'' (New 0 False))
     = Some (Errorf ''null: couldn't unmarshal JSON: '' JSONError)
   \<and> snd (UnmarshalJSON (json_Unmarshal_int KInt) ''1.2345'' (New 0 False))
     = Some (Errorf ''null: couldn't unmarshal JSON: '' JSONError)"
proof -
  let ?p = "\<lparr>num_neg = False, num_int = ''1'', num_frac = Some ''2345'', num_exp = None\<rparr>"
  have sc: "scan_number (trim_space ''1.2345'') = Some ?p"
    by (simp add: trim_space_def is_space_def scan_number_def scan_frac_def scan_exp_def
          is_digit_def Let_def)
  have v: "number_value ?p = 2469 / 2000"
    by (simp add: number_value_def digits_val_def digit_val_def)
  have nz: "(2469 / 2000 :: rat) \<notin> \<int>"
  proof
    assume "(2469 / 2000 :: rat) \<in> \<int>"
    then obtain z :: int where "(2469 / 2000 :: rat) = of_int z" by (auto elim: Ints_cases)
    then have "(of_int (2000 * z) :: rat) = of_int 2469" by simp
    then have "2000 * z = 2469" by (simp only: of_int_eq_iff)
    then have "(2000 :: int) dvd 2469" by (metis dvd_triv_left)
    then show False by simp
  qed
  have ni: "number_value ?p \<notin> \<int>" unfolding v by (rule nz)
  have mx: "FormatInt (kind_max KInt) = ''9223372036854775807''"
           "FormatInt (kind_max KInt + 1) = ''9223372036854775808''"
    by (simp_all add: FormatInt_def FormatUint.simps digit_char_def)
  show ?thesis
    using UnmarshalJSON_int_boundary [of KInt "New 0 False" "''1.2345''" ?p] sc ni mx
    by (simp add: New_def)
qed

text \<open>
  C4. The claim: whatever the prior state of the instance, a payload whose textual decode
  fails makes \<open>UnmarshalJSON\<close> return an error and leaves the instance marked invalid.
  What the code does: it returns the error, wrapped, and does not touch \<open>Valid\<close> on that
  path, so an instance that was valid before stays valid.
\<close>

theorem UnmarshalJSON_error_keeps_Valid:
  assumes "data \<noteq> ''null''" "json_Unmarshal data (Val n) = (v, Some e)"
  shows "UnmarshalJSON json_Unmarshal data n
           = (n\<lparr>Val := v\<rparr>, Some (Errorf ''null: couldn't unmarshal JSON: '' e))
         \<and> Valid (fst (UnmarshalJSON json_Unmarshal data n)) = Valid n"
  using assms by (simp add: UnmarshalJSON_def nullBytes_def)

theorem UnmarshalJSON_error_keeps_Valid_witness:
  "UnmarshalJSON (json_Unmarshal_int KInt) ''true'' (New 10 True)
     = (\<lparr>Val = 10, Valid = True\<rparr>, Some (Errorf ''null: couldn't unmarshal JSON: '' JSONError))"
proof -
  have d: "json_Unmarshal_int KInt ''true'' 10 = (10, Some JSONError)"
    by (simp add: json_Unmarshal_int_def trim_space_def is_space_def scan_number_def
          is_digit_def Let_def)
  show ?thesis
    using UnmarshalJSON_error_keeps_Valid [of "''true''" "json_Unmarshal_int KInt" "New 10 True"
            10 JSONError] d
    by (simp add: New_def)
qed


section \<open>The JSON round trip of a nullable value\<close>

subsection \<open>Decimal integers\<close>












lemma FormatInt_shape:
  "FormatInt v = (if v < 0 then CHR ''-'' # FormatUint (nat (- v)) else FormatUint (nat v))"
  by (simp add: FormatInt_def)











subsection \<open>Bytes of a rune\<close>










subsection \<open>Unquoting a quoted string\<close>















subsection \<open>The round trip\<close>




end
